theory Spec2Isabelle
  imports Complex_Main "HOL-Library.Sublist" "HOL-Library.Log_Nat"
begin

section \<open>JavaScript numbers and the two parsing built-ins\<close>

text \<open>
  The admin console (\<^verbatim>\<open>src/pages/AdminDashboard.tsx\<close>) computes with JavaScript
  numbers, that is with binary64 floating point.  A number is modelled as \<^verbatim>\<open>NaN\<close>, one
  of the two infinities, or a finite value given as a rational.  Every operation that
  produces a number (addition, subtraction, the two parsing functions) rounds its exact
  result to the nearest binary64 value, ties to even, and overflows to an infinity.  The
  sign of zero is not represented.
\<close>

datatype number = NaN | PosInf | NegInf | Fin rat

fun jsneg :: "number \<Rightarrow> number" where
  "jsneg NaN = NaN"
| "jsneg PosInf = NegInf"
| "jsneg NegInf = PosInf"
| "jsneg (Fin x) = Fin (- x)"

subsection \<open>Rounding to binary64\<close>

text \<open>Two to an integer power.\<close>

definition pow2 :: "int \<Rightarrow> rat" where
  "pow2 e = (if e < 0 then 1 / 2 ^ nat (- e) else 2 ^ nat e)"

text \<open>
  The binary exponent of a positive rational \<open>m\<close>: the \<open>e\<close> with
  \<^verbatim>\<open>2^e <= m < 2^(e+1)\<close>.  The difference of the bit lengths of numerator and
  denominator is \<open>e\<close> or \<open>e + 1\<close>.
\<close>

definition binary_exponent :: "rat \<Rightarrow> int" where
  "binary_exponent m =
     (let (n, d) = quotient_of m;
          e = bitlen n - bitlen d
      in if pow2 e \<le> m then e else e - 1)"

text \<open>The nearest integer, a tie going to the even one.\<close>

definition round_half_even :: "rat \<Rightarrow> int" where
  "round_half_even q =
     (let f = \<lfloor>q\<rfloor>; r = q - of_int f
      in if r < 1 / 2 then f
         else if 1 / 2 < r then f + 1
         else if even f then f else f + 1)"

text \<open>
  Rounding a positive rational: the spacing of binary64 values around \<open>m\<close> is
  \<^verbatim>\<open>2^p\<close> with \<open>p\<close> the exponent less the 52 fraction bits, the exponent being
  at least \<open>-1022\<close> (below that the values are subnormal and equally spaced).  A
  result of \<^verbatim>\<open>2^1024\<close> or more is an infinity.
\<close>

definition round_magnitude :: "rat \<Rightarrow> number" where
  "round_magnitude m =
     (let p = max (binary_exponent m) (- 1022) - 52;
          r = of_int (round_half_even (m / pow2 p)) * pow2 p
      in if r < pow2 1024 then Fin r else PosInf)"

definition round64 :: "rat \<Rightarrow> number" where
  "round64 q =
     (if q = 0 then Fin 0
      else if q < 0 then jsneg (round_magnitude (- q))
      else round_magnitude q)"

subsection \<open>Arithmetic and comparison\<close>

text \<open>The operator \<^verbatim>\<open>+\<close> on two numbers.\<close>

fun jsadd :: "number \<Rightarrow> number \<Rightarrow> number" where
  "jsadd NaN _ = NaN"
| "jsadd _ NaN = NaN"
| "jsadd PosInf NegInf = NaN"
| "jsadd NegInf PosInf = NaN"
| "jsadd PosInf _ = PosInf"
| "jsadd _ PosInf = PosInf"
| "jsadd NegInf _ = NegInf"
| "jsadd _ NegInf = NegInf"
| "jsadd (Fin x) (Fin y) = round64 (x + y)"

text \<open>The operator \<^verbatim>\<open>-\<close> on two numbers.\<close>

definition jssub :: "number \<Rightarrow> number \<Rightarrow> number" where
  "jssub a b = jsadd a (jsneg b)"

text \<open>The comparison \<^verbatim>\<open>a < b\<close>; it is false as soon as one side is \<^verbatim>\<open>NaN\<close>.\<close>

fun jsless :: "number \<Rightarrow> number \<Rightarrow> bool" where
  "jsless NaN _ = False"
| "jsless _ NaN = False"
| "jsless PosInf _ = False"
| "jsless _ NegInf = False"
| "jsless NegInf _ = True"
| "jsless _ PosInf = True"
| "jsless (Fin x) (Fin y) = (x < y)"

text \<open>\<^verbatim>\<open>Math.max(a, b)\<close>: \<^verbatim>\<open>NaN\<close> if either argument is, the larger one otherwise.\<close>

definition Math_max :: "number \<Rightarrow> number \<Rightarrow> number" where
  "Math_max a b =
     (if a = NaN \<or> b = NaN then NaN else if jsless a b then b else a)"

text \<open>Truthiness of a number: \<^verbatim>\<open>0\<close> and \<^verbatim>\<open>NaN\<close> are falsy.\<close>

definition truthy :: "number \<Rightarrow> bool" where
  "truthy n = (if n = NaN then False else if n = Fin 0 then False else True)"

subsection \<open>Scanning\<close>

text \<open>
  A string is the sequence of the bytes of its UTF-8 encoding.  \<open>space_width\<close> is
  the number of bytes of the white space or line terminator character at the head of a
  string, 0 when there is none: tab, line feed, vertical tab, form feed, carriage
  return, space, U+00A0, U+1680, U+2000 to U+200A, U+2028, U+2029, U+202F, U+205F,
  U+3000 and U+FEFF.
\<close>

definition space_width :: "string \<Rightarrow> nat" where
  "space_width s =
     (case map (of_char :: char \<Rightarrow> nat) (take 3 s) of
        [] \<Rightarrow> 0
      | b0 # r1 \<Rightarrow>
          if b0 = 32 then 1
          else if 9 \<le> b0 \<and> b0 \<le> 13 then 1
          else
            (case r1 of
               [] \<Rightarrow> 0
             | b1 # r2 \<Rightarrow>
                 if b0 = 194 \<and> b1 = 160 then 2
                 else
                   (case r2 of
                      [] \<Rightarrow> 0
                    | b2 # r3 \<Rightarrow>
                        if b0 = 225 \<and> b1 = 154 \<and> b2 = 128 then 3
                        else if b0 = 226 \<and> b1 = 128 \<and> 128 \<le> b2 \<and> b2 \<le> 138 then 3
                        else if b0 = 226 \<and> b1 = 128 \<and> b2 = 168 then 3
                        else if b0 = 226 \<and> b1 = 128 \<and> b2 = 169 then 3
                        else if b0 = 226 \<and> b1 = 128 \<and> b2 = 175 then 3
                        else if b0 = 226 \<and> b1 = 129 \<and> b2 = 159 then 3
                        else if b0 = 227 \<and> b1 = 128 \<and> b2 = 128 then 3
                        else if b0 = 239 \<and> b1 = 187 \<and> b2 = 191 then 3
                        else 0)))"

text \<open>
  \<^verbatim>\<open>TrimString(s, start)\<close>: the leading white space is dropped.  The first argument
  counts the bytes still to drop of a character already recognised.
\<close>

fun trim_from :: "nat \<Rightarrow> string \<Rightarrow> string" where
  "trim_from k [] = []"
| "trim_from (Suc k) (c # cs) = trim_from k cs"
| "trim_from 0 (c # cs) =
     (case space_width (c # cs) of
        0 \<Rightarrow> c # cs
      | Suc k \<Rightarrow> trim_from k cs)"

definition trim_start :: "string \<Rightarrow> string" where
  "trim_start s = trim_from 0 s"

definition is_digit :: "char \<Rightarrow> bool" where
  "is_digit c = (let k = (of_char c :: nat) in if k < 48 then False else k < 58)"

definition digit_val :: "char \<Rightarrow> int" where
  "digit_val c = (of_char c :: int) - 48"

fun digits_value :: "int \<Rightarrow> string \<Rightarrow> int" where
  "digits_value acc [] = acc"
| "digits_value acc (c # cs) = digits_value (acc * 10 + digit_val c) cs"

text \<open>An optional sign: the flag says whether a minus was read.\<close>

fun read_sign :: "string \<Rightarrow> bool \<times> string" where
  "read_sign [] = (False, [])"
| "read_sign (c # cs) =
     (if c = CHR ''-'' then (True, cs)
      else if c = CHR ''+'' then (False, cs)
      else (False, c # cs))"

fun starts_with :: "string \<Rightarrow> string \<Rightarrow> bool" where
  "starts_with [] _ = True"
| "starts_with (p # ps) [] = False"
| "starts_with (p # ps) (c # cs) = (if p = c then starts_with ps cs else False)"

subsection \<open>\<^verbatim>\<open>parseFloat\<close>\<close>

text \<open>
  The exponent part \<^verbatim>\<open>e\<close>, optional sign, one or more digits.  When no digit follows,
  there is no exponent part and the exponent is 0.
\<close>

definition read_exponent :: "string \<Rightarrow> int" where
  "read_exponent s =
     (case s of
        [] \<Rightarrow> 0
      | c # cs \<Rightarrow>
          if c = CHR ''e'' \<or> c = CHR ''E'' then
            (let (neg, r) = read_sign cs; es = takeWhile is_digit r
             in if es = [] then 0
                else if neg then - digits_value 0 es
                else digits_value 0 es)
          else 0)"

definition scale10 :: "rat \<Rightarrow> int \<Rightarrow> rat" where
  "scale10 m e = (if e < 0 then m / 10 ^ nat (- e) else m * 10 ^ nat e)"

text \<open>
  \<^verbatim>\<open>parseFloat(s)\<close>: leading white space is dropped, then the longest prefix that is a
  \<^verbatim>\<open>StrDecimalLiteral\<close> is read (a sign, then \<^verbatim>\<open>Infinity\<close> or digits with an optional
  fraction and exponent); the result is \<^verbatim>\<open>NaN\<close> when there is no such prefix, and the
  decimal value rounded to binary64 otherwise.
\<close>

definition parseFloat :: "string \<Rightarrow> number" where
  "parseFloat s =
     (let (neg, r0) = read_sign (trim_start s) in
      if starts_with ''Infinity'' r0 then (if neg then NegInf else PosInf)
      else
        let ds = takeWhile is_digit r0;
            r1 = dropWhile is_digit r0;
            dot = (case r1 of [] \<Rightarrow> False | c # _ \<Rightarrow> c = CHR ''.'');
            fs = (if dot then takeWhile is_digit (tl r1) else []);
            r2 = (if dot then dropWhile is_digit (tl r1) else r1)
        in if ds = [] \<and> fs = [] then NaN
           else
             let m = scale10 (of_int (digits_value 0 (ds @ fs)))
                       (read_exponent r2 - int (length fs))
             in round64 (if neg then - m else m))"

subsection \<open>\<^verbatim>\<open>parseInt\<close> without a radix argument\<close>

definition is_hex_digit :: "char \<Rightarrow> bool" where
  "is_hex_digit c = (let k = (of_char c :: nat) in
     if is_digit c then True
     else if k < 65 then False
     else if k < 71 then True
     else if k < 97 then False
     else k < 103)"

definition hex_val :: "char \<Rightarrow> int" where
  "hex_val c = (let k = (of_char c :: int) in
     if k < 58 then k - 48 else if k < 71 then k - 55 else k - 87)"

fun hex_value :: "int \<Rightarrow> string \<Rightarrow> int" where
  "hex_value acc [] = acc"
| "hex_value acc (c # cs) = hex_value (acc * 16 + hex_val c) cs"

text \<open>
  \<^verbatim>\<open>parseInt(s)\<close>: leading white space is dropped, a sign is read, a prefix \<^verbatim>\<open>0x\<close> or
  \<^verbatim>\<open>0X\<close> selects radix 16 and radix 10 is used otherwise; the longest run of digits of
  that radix is the value, rounded to binary64, and the result is \<^verbatim>\<open>NaN\<close> when the run
  is empty.
\<close>

definition parseInt :: "string \<Rightarrow> number" where
  "parseInt s =
     (let (neg, r0) = read_sign (trim_start s);
          hex = (if starts_with ''0x'' r0 then True else starts_with ''0X'' r0);
          ds = (if hex then takeWhile is_hex_digit (drop 2 r0) else takeWhile is_digit r0)
      in if ds = [] then NaN
         else
           let v = (if hex then hex_value 0 ds else digits_value 0 ds)
           in round64 (of_int (if neg then - v else v)))"

section \<open>Data model\<close>

text \<open>
  The three interfaces of the page.  Field names are those of the source; a prefix is
  added where two interfaces share a field name or the name is a constant of HOL
  (\<^verbatim>\<open>id\<close>, \<^verbatim>\<open>amount\<close>, \<^verbatim>\<open>name\<close>, \<^verbatim>\<open>is_active\<close>, \<^verbatim>\<open>type\<close>).
\<close>

record Profile =
  p_id :: string
  first_name :: string
  last_name :: string
  phone :: string
  referral_code :: string
  wallet_balance :: number
  p_is_active :: bool
  created_at :: string

datatype package_type = daily | stable

record InvestmentPackage =
  pkg_id :: string
  pkg_name :: string
  pkg_amount :: number
  return_amount :: number
  duration_days :: number
  max_purchases :: number
  pkg_is_active :: bool
  package_type :: package_type
  daily_income :: "number option"

record WithdrawalRequest =
  w_id :: string
  user_id :: string
  w_amount :: number
  fee :: number
  net_amount :: number
  status :: string
  requested_at :: string
  profiles :: Profile

text \<open>The two form buffers, all text fields being strings as typed by the admin.\<close>

record package_form =
  f_name :: string
  f_amount :: string
  f_return_amount :: string
  f_duration_days :: string
  f_package_type :: package_type

datatype adjustment_type = add | subtract

record wallet_form =
  wa_userId :: string
  wa_amount :: string
  wa_type :: adjustment_type

text \<open>The component state (the \<^verbatim>\<open>useState\<close> cells).\<close>

record state =
  users :: "Profile list"
  packages :: "InvestmentPackage list"
  withdrawals :: "WithdrawalRequest list"
  loading :: bool
  activeTab :: string
  packageForm :: package_form
  walletAdjustment :: wallet_form

definition empty_package_form :: package_form where
  "empty_package_form =
     \<lparr>f_name = [], f_amount = [], f_return_amount = [], f_duration_days = [],
      f_package_type = stable\<rparr>"

definition empty_wallet_form :: wallet_form where
  "empty_wallet_form = \<lparr>wa_userId = [], wa_amount = [], wa_type = add\<rparr>"

text \<open>The state of a freshly mounted component.\<close>

definition initial_state :: state where
  "initial_state =
     \<lparr>users = [], packages = [], withdrawals = [], loading = True, activeTab = ''users'',
      packageForm = empty_package_form, walletAdjustment = empty_wallet_form\<rparr>"

section \<open>The collaborators: remote store, notifications, console\<close>

text \<open>
  Every effect of a handler on the outside is an event; a handler returns the new state
  and the events in the order in which it caused them.  A request to the remote store is
  recorded when it is issued, before its answer is looked at.
\<close>

datatype table = tbl_profiles | tbl_investment_packages | tbl_withdrawal_requests
  | tbl_user_investments

text \<open>The object passed to \<^verbatim>\<open>update\<close>.\<close>

datatype payload =
    set_wallet_balance number
  | set_status string string

text \<open>The object passed to \<^verbatim>\<open>insert\<close> by the package form.\<close>

record new_package =
  ins_name :: string
  ins_amount :: number
  ins_return_amount :: number
  ins_duration_days :: number
  ins_max_purchases :: number
  ins_package_type :: package_type

text \<open>
  Requests: \<^verbatim>\<open>from(t).select(cols).order(col, descending)\<close>,
  \<^verbatim>\<open>from(t).update(p).eq(col, v)\<close>, \<^verbatim>\<open>from(t).delete().eq(col, v)\<close>,
  \<^verbatim>\<open>from('investment_packages').insert(r)\<close> and \<^verbatim>\<open>auth.admin.deleteUser(v)\<close>.
\<close>

datatype request =
    Select table string string
  | Update table payload string string
  | Delete table string string
  | Insert new_package
  | Auth_deleteUser string

datatype variant = default_variant | destructive

record toast =
  title :: string
  description :: string
  variant :: variant

text \<open>
  Events: a request issued, a notification shown, and a line written with
  \<^verbatim>\<open>console.log\<close>, \<^verbatim>\<open>console.warn\<close> or \<^verbatim>\<open>console.error\<close> (its first argument, the label).
\<close>

datatype event =
    Remote request
  | Toast toast
  | Console_log string
  | Console_warn string
  | Console_error string

text \<open>
  What awaiting a request gives: the object \<^verbatim>\<open>{ data, error }\<close>, each of the two possibly
  \<^verbatim>\<open>null\<close>, or a rejection, which the \<^verbatim>\<open>await\<close> turns into a thrown exception.
\<close>

datatype 'a response = Resolved "'a option" "string option" | Rejected string

text \<open>
  Everything a handler reads from outside the component: the answers of the remote store
  to the three reads and to each write, the admin's answer to \<^verbatim>\<open>window.confirm\<close>, the clock
  behind \<^verbatim>\<open>new Date().toISOString()\<close> and the locale behind \<^verbatim>\<open>toLocaleString\<close>.

  One run of a handler issues each of its writes once, and no two of them are the same
  request, so a function from the request to its answer covers every behaviour of the
  store during the run.  A handler runs from start to end without another handler in
  between.
\<close>

record env =
  select_profiles :: "Profile list response"
  select_packages :: "InvestmentPackage list response"
  select_withdrawals :: "WithdrawalRequest list response"
  respond :: "request \<Rightarrow> unit response"
  confirm :: "string \<Rightarrow> bool"
  now_iso :: string
  toLocaleString :: "number \<Rightarrow> string"

text \<open>Projections of a trace used to state the properties.\<close>

fun remote_writes :: "event list \<Rightarrow> request list" where
  "remote_writes [] = []"
| "remote_writes (Remote (Select t c ord) # es) = remote_writes es"
| "remote_writes (Remote r # es) = r # remote_writes es"
| "remote_writes (_ # es) = remote_writes es"

fun toasts :: "event list \<Rightarrow> toast list" where
  "toasts [] = []"
| "toasts (Toast t # es) = t # toasts es"
| "toasts (_ # es) = toasts es"

fun console_errors :: "event list \<Rightarrow> string list" where
  "console_errors [] = []"
| "console_errors (Console_error m # es) = m # console_errors es"
| "console_errors (_ # es) = console_errors es"


text \<open>\<^verbatim>\<open>if (error) throw error\<close> is passed exactly by a resolved answer whose error is \<^verbatim>\<open>null\<close>.\<close>

fun succeeded :: "'a response \<Rightarrow> bool" where
  "succeeded (Resolved d None) = True"
| "succeeded _ = False"

fun resolved :: "'a response \<Rightarrow> bool" where
  "resolved (Resolved d e) = True"
| "resolved (Rejected e) = False"

section \<open>\<^verbatim>\<open>fetchData\<close>\<close>

definition sel_profiles :: request where
  "sel_profiles = Select tbl_profiles ''*'' ''created_at''"

definition sel_packages :: request where
  "sel_packages = Select tbl_investment_packages ''*'' ''created_at''"

text \<open>The select list of the withdrawals read is a template literal of four lines.\<close>

definition withdrawals_columns :: string where
  "withdrawals_columns =
     [CHR 0x0A] @ ''          *,''
     @ [CHR 0x0A] @ ''          profiles!withdrawal_requests_user_id_fkey (*)''
     @ [CHR 0x0A] @ ''        ''"

definition sel_withdrawals :: request where
  "sel_withdrawals = Select tbl_withdrawal_requests withdrawals_columns ''requested_at''"

text \<open>\<^verbatim>\<open>data || []\<close>: a \<^verbatim>\<open>null\<close> answer becomes the empty list.\<close>

definition or_empty :: "'a list option \<Rightarrow> 'a list" where
  "or_empty d = (case d of None \<Rightarrow> [] | Some xs \<Rightarrow> xs)"

text \<open>The mapping applied to each fetched package row: \<^verbatim>\<open>daily_income || 0\<close>.\<close>

definition with_daily_income :: "InvestmentPackage \<Rightarrow> InvestmentPackage" where
  "with_daily_income pkg =
     pkg\<lparr>daily_income :=
       Some (case daily_income pkg of
               None \<Rightarrow> Fin 0
             | Some n \<Rightarrow> if truthy n then n else Fin 0)\<rparr>"

definition fetch_failed_toast :: toast where
  "fetch_failed_toast =
     \<lparr>title = ''Error'', description = ''Failed to fetch dashboard data.'',
      variant = destructive\<rparr>"

text \<open>The \<^verbatim>\<open>catch\<close> block followed by the \<^verbatim>\<open>finally\<close> block.\<close>

definition fetch_caught :: "state \<Rightarrow> event list \<Rightarrow> state \<times> event list" where
  "fetch_caught st tr =
     (st\<lparr>loading := False\<rparr>,
      tr @ [Console_error ''Error fetching data:'', Toast fetch_failed_toast])"

text \<open>The body of \<^verbatim>\<open>if (usersError)\<close>.\<close>

definition users_warning_toast :: toast where
  "users_warning_toast =
     \<lparr>title = ''Users Data Warning'',
      description = ''Could not fetch users data. This may be due to RLS policies.'',
      variant = destructive\<rparr>"

definition users_warning :: "event list" where
  "users_warning = [Console_error ''Users fetch error:'', Toast users_warning_toast]"

definition fetchData :: "env \<Rightarrow> state \<Rightarrow> state \<times> event list" where
  "fetchData ev st =
     (let st1 = st\<lparr>loading := True\<rparr>;
          t1 = [Console_log ''Fetching admin data...'', Remote sel_profiles]
      in case select_profiles ev of
           Rejected x \<Rightarrow> fetch_caught st1 t1
         | Resolved usersData usersError \<Rightarrow>
             let t2 = t1 @ [Console_log ''Users data:'', Console_log ''Users error:'',
                            Remote sel_packages]
             in case select_packages ev of
                  Rejected x \<Rightarrow> fetch_caught st1 t2
                | Resolved packagesData packagesError \<Rightarrow>
                    let t3 = t2 @ [Remote sel_withdrawals]
                    in case select_withdrawals ev of
                         Rejected x \<Rightarrow> fetch_caught st1 t3
                       | Resolved withdrawalsData withdrawalsError \<Rightarrow>
                           (st1\<lparr>users := or_empty usersData,
                                 packages := or_empty
                                   (map_option (map with_daily_income) packagesData),
                                 withdrawals := or_empty withdrawalsData,
                                 loading := False\<rparr>,
                            t3 @ (case usersError of None \<Rightarrow> []
                                  | Some x \<Rightarrow> users_warning)))"

section \<open>The handlers\<close>

subsection \<open>\<^verbatim>\<open>handleUserDeletion\<close>\<close>

definition deletion_failed_toast :: toast where
  "deletion_failed_toast =
     \<lparr>title = ''Error'', description = ''Failed to delete user.'', variant = destructive\<rparr>"

text \<open>The outer \<^verbatim>\<open>catch\<close> block.\<close>

definition deletion_caught :: "event list" where
  "deletion_caught = [Console_error ''Error deleting user:'', Toast deletion_failed_toast]"

definition del_investments :: "string \<Rightarrow> request" where
  "del_investments userId = Delete tbl_user_investments ''user_id'' userId"

definition del_withdrawals :: "string \<Rightarrow> request" where
  "del_withdrawals userId = Delete tbl_withdrawal_requests ''user_id'' userId"

definition del_profile :: "string \<Rightarrow> request" where
  "del_profile userId = Delete tbl_profiles ''id'' userId"

definition confirm_user_text :: "string \<Rightarrow> string" where
  "confirm_user_text userName =
     ''Are you sure you want to delete user '' @ userName
       @ ''? This action cannot be undone.''"

definition user_deleted_toast :: "string \<Rightarrow> toast" where
  "user_deleted_toast userName =
     \<lparr>title = ''User Deleted'',
      description = ''User '' @ userName @ '' has been successfully deleted.'',
      variant = default_variant\<rparr>"

text \<open>
  The inner \<^verbatim>\<open>try\<close> around \<^verbatim>\<open>auth.admin.deleteUser\<close>: a rejection is caught and warned
  about; the resolved answer is not looked at.
\<close>

definition auth_removal :: "env \<Rightarrow> string \<Rightarrow> event list" where
  "auth_removal ev userId =
     Remote (Auth_deleteUser userId) #
       (case respond ev (Auth_deleteUser userId) of
          Rejected x \<Rightarrow> [Console_warn ''Could not delete auth user:'']
        | Resolved d e \<Rightarrow> [])"

definition handleUserDeletion ::
  "env \<Rightarrow> state \<Rightarrow> string \<Rightarrow> string \<Rightarrow> state \<times> event list" where
  "handleUserDeletion ev st userId userName =
     (if confirm ev (confirm_user_text userName) then
        (case respond ev (del_investments userId) of
           Rejected x \<Rightarrow> (st, Remote (del_investments userId) # deletion_caught)
         | Resolved d1 e1 \<Rightarrow>
             (case respond ev (del_withdrawals userId) of
                Rejected x \<Rightarrow>
                  (st, [Remote (del_investments userId), Remote (del_withdrawals userId)]
                         @ deletion_caught)
              | Resolved d2 e2 \<Rightarrow>
                  if succeeded (respond ev (del_profile userId)) then
                    (let (st', tf) = fetchData ev st
                     in (st',
                         [Remote (del_investments userId), Remote (del_withdrawals userId),
                          Remote (del_profile userId)]
                           @ auth_removal ev userId
                           @ [Toast (user_deleted_toast userName)] @ tf))
                  else
                    (st, [Remote (del_investments userId), Remote (del_withdrawals userId),
                          Remote (del_profile userId)] @ deletion_caught)))
      else (st, []))"

subsection \<open>\<^verbatim>\<open>handleWalletAdjustment\<close>\<close>

definition wallet_invalid_toast :: toast where
  "wallet_invalid_toast =
     \<lparr>title = ''Invalid Input'',
      description = ''Please select a user and enter an amount.'',
      variant = destructive\<rparr>"

definition wallet_caught :: "event list" where
  "wallet_caught =
     [Console_error ''Error adjusting wallet:'',
      Toast \<lparr>title = ''Error'', description = ''Failed to adjust wallet balance.'',
             variant = destructive\<rparr>]"

definition wallet_adjusted_toast :: "env \<Rightarrow> adjustment_type \<Rightarrow> number \<Rightarrow> toast" where
  "wallet_adjusted_toast ev ty amount =
     \<lparr>title = ''Wallet Adjusted'',
      description = ''User wallet has been ''
        @ (if ty = add then ''credited'' else ''debited'')
        @ '' with '' @ toLocaleString ev amount @ '' RWF.'',
      variant = default_variant\<rparr>"

text \<open>The balance computed from the found profile and the parsed amount.\<close>

definition newBalance :: "adjustment_type \<Rightarrow> number \<Rightarrow> number \<Rightarrow> number" where
  "newBalance ty current amount =
     (if ty = add then jsadd current amount
      else Math_max (Fin 0) (jssub current amount))"

definition update_balance :: "string \<Rightarrow> number \<Rightarrow> request" where
  "update_balance userId b = Update tbl_profiles (set_wallet_balance b) ''id'' userId"

definition handleWalletAdjustment :: "env \<Rightarrow> state \<Rightarrow> state \<times> event list" where
  "handleWalletAdjustment ev st =
     (let wa = walletAdjustment st in
      if wa_userId wa = [] \<or> wa_amount wa = [] then (st, [Toast wallet_invalid_toast])
      else
        case find (\<lambda>u. p_id u = wa_userId wa) (users st) of
          None \<Rightarrow> (st, [])
        | Some user \<Rightarrow>
            let amount = parseFloat (wa_amount wa);
                req = update_balance (wa_userId wa)
                        (newBalance (wa_type wa) (wallet_balance user) amount)
            in if succeeded (respond ev req) then
                 (let (st', tf) = fetchData ev (st\<lparr>walletAdjustment := empty_wallet_form\<rparr>)
                  in (st', [Remote req, Toast (wallet_adjusted_toast ev (wa_type wa) amount)]
                             @ tf))
               else (st, Remote req # wallet_caught))"

subsection \<open>\<^verbatim>\<open>handleWithdrawalAction\<close>\<close>

datatype action = approve | reject

fun action_text :: "action \<Rightarrow> string" where
  "action_text approve = ''approve''"
| "action_text reject = ''reject''"

definition update_status :: "env \<Rightarrow> string \<Rightarrow> action \<Rightarrow> request" where
  "update_status ev withdrawalId a =
     Update tbl_withdrawal_requests
       (set_status (if a = approve then ''approved'' else ''rejected'') (now_iso ev))
       ''id'' withdrawalId"

definition withdrawal_toast :: "action \<Rightarrow> toast" where
  "withdrawal_toast a =
     \<lparr>title = ''Withdrawal '' @ (if a = approve then ''Approved'' else ''Rejected''),
      description = ''The withdrawal request has been '' @ action_text a @ ''d.'',
      variant = default_variant\<rparr>"

definition withdrawal_caught :: "event list" where
  "withdrawal_caught =
     [Console_error ''Error processing withdrawal:'',
      Toast \<lparr>title = ''Error'', description = ''Failed to process withdrawal request.'',
             variant = destructive\<rparr>]"

definition handleWithdrawalAction ::
  "env \<Rightarrow> state \<Rightarrow> string \<Rightarrow> action \<Rightarrow> state \<times> event list" where
  "handleWithdrawalAction ev st withdrawalId a =
     (let req = update_status ev withdrawalId a
      in if succeeded (respond ev req) then
           (let (st', tf) = fetchData ev st
            in (st', [Remote req, Toast (withdrawal_toast a)] @ tf))
         else (st, Remote req # withdrawal_caught))"

subsection \<open>\<^verbatim>\<open>handlePackageCreate\<close>\<close>

definition package_invalid_toast :: toast where
  "package_invalid_toast =
     \<lparr>title = ''Invalid Input'',
      description = ''Please fill in all package details.'',
      variant = destructive\<rparr>"

definition package_caught :: "event list" where
  "package_caught =
     [Console_error ''Error creating package:'',
      Toast \<lparr>title = ''Error'', description = ''Failed to create investment package.'',
             variant = destructive\<rparr>]"

fun package_type_text :: "package_type \<Rightarrow> string" where
  "package_type_text daily = ''daily''"
| "package_type_text stable = ''stable''"

definition package_created_toast :: "package_type \<Rightarrow> toast" where
  "package_created_toast ty =
     \<lparr>title = ''Package Created'',
      description = ''New '' @ package_type_text ty
        @ '' investment package has been created successfully.'',
      variant = default_variant\<rparr>"

text \<open>The object handed to \<^verbatim>\<open>insert\<close>.\<close>

definition insert_of_form :: "package_form \<Rightarrow> new_package" where
  "insert_of_form f =
     \<lparr>ins_name = f_name f,
      ins_amount = parseFloat (f_amount f),
      ins_return_amount = parseFloat (f_return_amount f),
      ins_duration_days = parseInt (f_duration_days f),
      ins_max_purchases = Fin 3,
      ins_package_type = f_package_type f\<rparr>"

definition handlePackageCreate :: "env \<Rightarrow> state \<Rightarrow> state \<times> event list" where
  "handlePackageCreate ev st =
     (let f = packageForm st in
      if f_name f = [] \<or> f_amount f = [] \<or> f_return_amount f = [] \<or> f_duration_days f = []
      then (st, [Toast package_invalid_toast])
      else
        let req = Insert (insert_of_form f)
        in if succeeded (respond ev req) then
             (let (st', tf) = fetchData ev (st\<lparr>packageForm := empty_package_form\<rparr>)
              in (st', [Remote req, Toast (package_created_toast (f_package_type f))] @ tf))
           else (st, Remote req # package_caught))"

section \<open>Concrete situations\<close>

text \<open>A remote store in which every request succeeds and every table is empty.\<close>

definition quiet_env :: env where
  "quiet_env =
     \<lparr>select_profiles = Resolved (Some []) None,
      select_packages = Resolved (Some []) None,
      select_withdrawals = Resolved (Some []) None,
      respond = (\<lambda>r. Resolved None None),
      confirm = (\<lambda>m. True),
      now_iso = ''2024-05-01T10:00:00.000Z'',
      toLocaleString = (\<lambda>n. ''n'')\<rparr>"

definition alice :: Profile where
  "alice =
     \<lparr>p_id = ''u1'', first_name = ''Alice'', last_name = ''K'', phone = ''0780000000'',
      referral_code = ''REF1'', wallet_balance = Fin 10000, p_is_active = True,
      created_at = ''2024-01-01''\<rparr>"

text \<open>Debiting 15000 from a balance of 10000.\<close>

definition debit_example :: state where
  "debit_example =
     initial_state\<lparr>users := [alice], loading := False,
       walletAdjustment := \<lparr>wa_userId = ''u1'', wa_amount = ''15000'', wa_type = subtract\<rparr>\<rparr>"


text \<open>Crediting the amount \<^verbatim>\<open>-5\<close>, which a number input accepts.\<close>

definition negative_credit_example :: state where
  "negative_credit_example =
     initial_state\<lparr>users := [alice], loading := False,
       walletAdjustment := \<lparr>wa_userId = ''u1'', wa_amount = ''-5'', wa_type = add\<rparr>\<rparr>"

text \<open>Crediting the amount \<^verbatim>\<open>abc\<close>, which does not parse.\<close>

definition unparseable_example :: state where
  "unparseable_example =
     initial_state\<lparr>users := [alice], loading := False,
       walletAdjustment := \<lparr>wa_userId = ''u1'', wa_amount = ''abc'', wa_type = add\<rparr>\<rparr>"

definition no_amount_example :: state where
  "no_amount_example =
     initial_state\<lparr>users := [alice], loading := False,
       walletAdjustment := \<lparr>wa_userId = ''u1'', wa_amount = [], wa_type = add\<rparr>\<rparr>"

text \<open>A selected id that the local list of users does not hold.\<close>

definition unknown_user_example :: state where
  "unknown_user_example =
     initial_state\<lparr>users := [alice], loading := False,
       walletAdjustment := \<lparr>wa_userId = ''u2'', wa_amount = ''100'', wa_type = add\<rparr>\<rparr>"

text \<open>The package of the specification's scenario, typed into the form.\<close>

definition premium_example :: state where
  "premium_example =
     initial_state\<lparr>loading := False, activeTab := ''packages'',
       packageForm := \<lparr>f_name = ''Premium'', f_amount = ''50000'', f_return_amount = ''65000'',
                       f_duration_days = ''30'', f_package_type = daily\<rparr>\<rparr>"

text \<open>The same form with letters as the amount.\<close>

definition nonnumeric_example :: state where
  "nonnumeric_example =
     initial_state\<lparr>loading := False, activeTab := ''packages'',
       packageForm := \<lparr>f_name = ''Premium'', f_amount = ''abc'', f_return_amount = ''65000'',
                       f_duration_days = ''30'', f_package_type = daily\<rparr>\<rparr>"

text \<open>The same form with the duration left empty.\<close>

definition no_duration_example :: state where
  "no_duration_example =
     initial_state\<lparr>loading := False, activeTab := ''packages'',
       packageForm := \<lparr>f_name = ''Premium'', f_amount = ''50000'', f_return_amount = ''65000'',
                       f_duration_days = [], f_package_type = daily\<rparr>\<rparr>"

text \<open>The packages read answers with an error object.\<close>

definition packages_error_env :: env where
  "packages_error_env =
     quiet_env\<lparr>select_packages := Resolved None (Some ''permission denied'')\<rparr>"

text \<open>The profiles read answers with an error object.\<close>

definition users_error_env :: env where
  "users_error_env =
     quiet_env\<lparr>select_profiles := Resolved None (Some ''permission denied'')\<rparr>"

text \<open>The withdrawals read rejects.\<close>

definition withdrawals_rejected_env :: env where
  "withdrawals_rejected_env = quiet_env\<lparr>select_withdrawals := Rejected ''network''\<rparr>"

text \<open>Removing the authentication identity of \<^verbatim>\<open>u1\<close> rejects; all else succeeds.\<close>

definition auth_failure_env :: env where
  "auth_failure_env =
     quiet_env\<lparr>respond := (\<lambda>r. if r = Auth_deleteUser ''u1'' then Rejected ''not allowed''
                              else Resolved None None)\<rparr>"

text \<open>Every write but the deletion of the profile \<^verbatim>\<open>u1\<close> answers with an error object.\<close>

definition dependents_error_env :: env where
  "dependents_error_env =
     quiet_env\<lparr>respond := (\<lambda>r. if r = del_profile ''u1'' then Resolved None None
                              else Resolved None (Some ''denied''))\<rparr>"

text \<open>A withdrawal that has been approved already.\<close>

definition approved_withdrawal :: WithdrawalRequest where
  "approved_withdrawal =
     \<lparr>w_id = ''w1'', user_id = ''u1'', w_amount = Fin 5000, fee = Fin 250,
      net_amount = Fin 4750, status = ''approved'', requested_at = ''2024-04-30'',
      profiles = alice\<rparr>"

definition processed_example :: state where
  "processed_example =
     initial_state\<lparr>users := [alice], withdrawals := [approved_withdrawal], loading := False,
       activeTab := ''withdrawals''\<rparr>"

section \<open>Basic facts\<close>

subsection \<open>Rounding\<close>

lemma pow2_pos: "0 < pow2 e"
  by (simp add: pow2_def)

lemma round_half_even_of_int: "round_half_even (of_int j) = j"
  by (simp add: round_half_even_def)




lemma binary_exponent_of_int:
  assumes "0 < n"
  shows "binary_exponent (of_int n) = bitlen n - 1"
proof -
  have b: "2 ^ nat (bitlen n - 1) \<le> n" "1 \<le> bitlen n"
    using bitlen_bounds [OF assms] assms by (auto simp: bitlen_alt_def)
  have one: "bitlen 1 = 1"
    by (simp add: bitlen_alt_def)
  have "pow2 (bitlen n - 1) = of_int (2 ^ nat (bitlen n - 1))"
    using b(2) by (simp add: pow2_def)
  also have "\<dots> \<le> of_int n"
    using b(1) by (simp only: of_int_le_iff)
  finally show ?thesis
    by (simp add: binary_exponent_def one)
qed

text \<open>The integers up to \<^verbatim>\<open>2^53\<close> are binary64 values: rounding leaves them alone.\<close>

lemma round_magnitude_of_int:
  assumes "0 < n" "n \<le> 2 ^ 53"
  shows "round_magnitude (of_int n) = Fin (of_int n)"
proof -
  let ?e = "bitlen n - 1"
  let ?p = "?e - 52"
  have e0: "0 \<le> ?e"
    using assms(1) by (auto simp: bitlen_alt_def)
  have "n < 2 ^ nat 54" using assms(2) by simp
  then have e53: "?e \<le> 53"
    using bitlen_le_iff_power [of n 54] by simp
  have p: "max (binary_exponent (of_int n)) (- 1022) - 52 = ?p"
    using e0 by (simp add: binary_exponent_of_int [OF assms(1)])
  have small: "(of_int n :: rat) < pow2 1024"
  proof -
    have "(of_int n :: rat) \<le> of_int (2 ^ 53)"
      using assms(2) by (simp only: of_int_le_iff)
    also have "\<dots> < pow2 1024" by (simp add: pow2_def)
    finally show ?thesis .
  qed
  have "\<exists>j. (of_int n :: rat) = of_int j * pow2 ?p"
  proof (cases "?p \<le> 0")
    case True
    then have "2 ^ nat (- ?p) * pow2 ?p = 1"
      by (cases "?p = 0") (simp_all add: pow2_def)
    then have "of_int n * (2 ^ nat (- ?p) * pow2 ?p) = (of_int n :: rat)"
      by (simp only: mult_1_right)
    then have "(of_int n :: rat) = of_int (n * 2 ^ nat (- ?p)) * pow2 ?p"
      by (simp only: of_int_mult of_int_power of_int_numeral mult.assoc)
    then show ?thesis by blast
  next
    case False
    with e53 have e: "?e = 53" by simp
    then have "2 ^ nat 53 \<le> n"
      using bitlen_bounds [OF assms(1)] by simp
    with assms(2) have "n = 2 ^ 53" by simp
    moreover have "?p = 1" using e by simp
    ultimately have "(of_int n :: rat) = of_int (2 ^ 52) * pow2 ?p"
      by (simp add: pow2_def)
    then show ?thesis by blast
  qed
  then obtain j where j: "(of_int n :: rat) = of_int j * pow2 ?p" ..
  have "of_int n / pow2 ?p = (of_int j :: rat)"
    using pow2_pos [of ?p] by (simp add: j)
  then have "of_int (round_half_even (of_int n / pow2 ?p)) * pow2 ?p = (of_int n :: rat)"
    by (simp add: round_half_even_of_int j)
  then show ?thesis
    using small by (simp add: round_magnitude_def p Let_def)
qed

lemma round64_of_int:
  assumes "\<bar>n\<bar> \<le> 2 ^ 53"
  shows "round64 (of_int n) = Fin (of_int n)"
proof -
  consider "n = 0" | "0 < n" | "n < 0" by linarith
  then show ?thesis
  proof cases
    case 1
    then show ?thesis by (simp add: round64_def)
  next
    case 2
    with assms have "n \<le> 2 ^ 53" by simp
    from round_magnitude_of_int [OF 2 this] 2 show ?thesis
      by (simp add: round64_def)
  next
    case 3
    then have "0 < - n" "- n \<le> 2 ^ 53" using assms by simp_all
    from round_magnitude_of_int [OF this] 3 show ?thesis
      by (simp add: round64_def)
  qed
qed

lemma round64_numeral:
  "numeral k \<le> (9007199254740992 :: int) \<Longrightarrow> round64 (numeral k) = Fin (numeral k)"
  using round64_of_int [of "numeral k"] by simp

lemma round64_neg_numeral:
  "numeral k \<le> (9007199254740992 :: int) \<Longrightarrow>
     round64 (- numeral k) = Fin (- numeral k)"
  using round64_of_int [of "- numeral k"] by simp

text \<open>Beyond \<^verbatim>\<open>2^53\<close> the sum is rounded: \<^verbatim>\<open>9007199254740992 + 1\<close> is
  \<^verbatim>\<open>9007199254740992\<close>.\<close>

lemma jsadd_rounds: "jsadd (Fin 9007199254740992) (Fin 1) = Fin 9007199254740992"
  by code_simp

subsection \<open>Traces\<close>

lemmas parse_defs = parseFloat_def parseInt_def trim_start_def space_width_def is_digit_def
  digit_val_def read_exponent_def scale10_def round64_numeral round64_neg_numeral

lemma remote_writes_append:
  "remote_writes (xs @ ys) = remote_writes xs @ remote_writes ys"
  by (induction xs rule: remote_writes.induct) simp_all

lemma toasts_append: "toasts (xs @ ys) = toasts xs @ toasts ys"
  by (induction xs rule: toasts.induct) simp_all

lemma console_errors_append:
  "console_errors (xs @ ys) = console_errors xs @ console_errors ys"
  by (induction xs rule: console_errors.induct) simp_all

text \<open>A refresh only reads.\<close>

lemma fetchData_no_writes: "remote_writes (snd (fetchData ev st)) = []"
  by (simp add: fetchData_def fetch_caught_def users_warning_def sel_profiles_def
      sel_packages_def sel_withdrawals_def Let_def split: response.split option.split)

text \<open>What a refresh does to the outside depends on the answers only, not on the state.\<close>

lemma fetchData_trace_env_only: "snd (fetchData ev st) = snd (fetchData ev st')"
  by (simp add: fetchData_def fetch_caught_def Let_def split: response.split option.split)

lemma fetchData_keeps_forms:
  "packageForm (fst (fetchData ev st)) = packageForm st"
  "walletAdjustment (fst (fetchData ev st)) = walletAdjustment st"
  by (simp_all add: fetchData_def fetch_caught_def Let_def split: response.split option.split)

lemma respond_quiet_env: "respond quiet_env q = Resolved None None"
  by (simp add: quiet_env_def)



section \<open>Refresh\<close>

text \<open>
  Claim C8.  Every run of \<^verbatim>\<open>fetchData\<close> ends with the loading flag cleared, whatever the
  three reads answer: on the path where all of them resolve and on each path where one
  of them rejects.
\<close>

theorem fetchData_clears_loading: "loading (fst (fetchData ev st)) = False"
  by (simp add: fetchData_def fetch_caught_def Let_def split: response.split)

section \<open>Wallet adjustment\<close>



text \<open>
  Claim C3, as stated, fails on both counts.  The amount \<^verbatim>\<open>-5\<close> is not positive, yet
  the handler issues the update, writing 9995 over a balance of 10000.  The amount
  \<^verbatim>\<open>abc\<close> does not parse, yet the handler issues the update, writing \<^verbatim>\<open>NaN\<close>.
\<close>

theorem wallet_amount_unchecked_counterexample:
  "parseFloat (wa_amount (walletAdjustment negative_credit_example)) = Fin (- 5)
   \<and> \<not> jsless (Fin 0) (parseFloat (wa_amount (walletAdjustment negative_credit_example)))
   \<and> remote_writes (snd (handleWalletAdjustment quiet_env negative_credit_example))
       = [update_balance ''u1'' (Fin 9995)]
   \<and> parseFloat (wa_amount (walletAdjustment unparseable_example)) = NaN
   \<and> remote_writes (snd (handleWalletAdjustment quiet_env unparseable_example))
       = [update_balance ''u1'' NaN]"
proof -
  have p: "parseFloat ''-5'' = Fin (- 5)" "parseFloat ''abc'' = NaN"
    by (simp_all add: parse_defs)
  have s: "round64 9995 = Fin 9995"
    by (simp add: round64_numeral)
  show ?thesis
    by (simp add: negative_credit_example_def unparseable_example_def
        handleWalletAdjustment_def Let_def p s
        fetchData_no_writes respond_quiet_env alice_def initial_state_def newBalance_def
        update_balance_def case_prod_beta remote_writes_append)
qed

text \<open>
  Claim C3, amended.  Before any remote write the handler checks that the selected user
  id and the amount string are not empty, and nothing else about the amount.  An empty
  user id or an empty amount is answered by the notification ``Invalid Input'' alone,
  with the state unchanged.  A write is issued only when both are non-empty and the user
  is found in the local list; and then it is issued, whatever the amount parses to.
\<close>

theorem wallet_validation_is_nonempty_check:
  "(wa_userId (walletAdjustment st) = [] \<or> wa_amount (walletAdjustment st) = [] \<longrightarrow>
      handleWalletAdjustment ev st = (st, [Toast wallet_invalid_toast]))
   \<and> (remote_writes (snd (handleWalletAdjustment ev st)) \<noteq> [] \<longrightarrow>
        wa_userId (walletAdjustment st) \<noteq> [] \<and> wa_amount (walletAdjustment st) \<noteq> []
        \<and> find (\<lambda>u. p_id u = wa_userId (walletAdjustment st)) (users st) \<noteq> None)
   \<and> (wa_userId (walletAdjustment st) \<noteq> [] \<and> wa_amount (walletAdjustment st) \<noteq> []
        \<and> find (\<lambda>u. p_id u = wa_userId (walletAdjustment st)) (users st) = Some user \<longrightarrow>
        remote_writes (snd (handleWalletAdjustment ev st))
          = [update_balance (wa_userId (walletAdjustment st))
               (newBalance (wa_type (walletAdjustment st)) (wallet_balance user)
                  (parseFloat (wa_amount (walletAdjustment st))))])"
  by (auto simp: handleWalletAdjustment_def Let_def update_balance_def wallet_caught_def
      case_prod_beta remote_writes_append fetchData_no_writes split: option.splits)

theorem wallet_validation_is_nonempty_check_witness:
  "wa_amount (walletAdjustment no_amount_example) = []
   \<and> handleWalletAdjustment quiet_env no_amount_example
       = (no_amount_example, [Toast wallet_invalid_toast])
   \<and> wa_userId (walletAdjustment unparseable_example) \<noteq> []
   \<and> wa_amount (walletAdjustment unparseable_example) \<noteq> []
   \<and> find (\<lambda>u. p_id u = wa_userId (walletAdjustment unparseable_example))
        (users unparseable_example) = Some alice
   \<and> remote_writes (snd (handleWalletAdjustment quiet_env unparseable_example))
       = [update_balance ''u1'' NaN]"
proof -
  have h: "wa_amount (walletAdjustment no_amount_example) = []"
    by (simp add: no_amount_example_def)
  have k: "wa_userId (walletAdjustment unparseable_example) \<noteq> []"
    "wa_amount (walletAdjustment unparseable_example) \<noteq> []"
    "find (\<lambda>u. p_id u = wa_userId (walletAdjustment unparseable_example))
        (users unparseable_example) = Some alice"
    by (simp_all add: unparseable_example_def alice_def)
  have v: "update_balance (wa_userId (walletAdjustment unparseable_example))
             (newBalance (wa_type (walletAdjustment unparseable_example))
                (wallet_balance alice)
                (parseFloat (wa_amount (walletAdjustment unparseable_example))))
           = update_balance ''u1'' NaN"
    by (simp add: unparseable_example_def alice_def newBalance_def parse_defs)
  from wallet_validation_is_nonempty_check [of no_amount_example quiet_env]
    wallet_validation_is_nonempty_check [of unparseable_example quiet_env alice]
  show ?thesis using h k v by simp
qed

text \<open>
  Claim C10.  With a non-empty user id and a non-empty amount, when no profile of the
  local list has that id the handler returns at once: no request, no notification, no
  console output, and the state, the form buffer included, is the one it started from.
\<close>

theorem wallet_unknown_user_silent:
  assumes "wa_userId (walletAdjustment st) \<noteq> []"
      and "wa_amount (walletAdjustment st) \<noteq> []"
      and "find (\<lambda>u. p_id u = wa_userId (walletAdjustment st)) (users st) = None"
  shows "handleWalletAdjustment ev st = (st, [])"
  using assms by (simp add: handleWalletAdjustment_def Let_def)

theorem wallet_unknown_user_silent_witness:
  "wa_userId (walletAdjustment unknown_user_example) \<noteq> []
   \<and> wa_amount (walletAdjustment unknown_user_example) \<noteq> []
   \<and> find (\<lambda>u. p_id u = wa_userId (walletAdjustment unknown_user_example))
        (users unknown_user_example) = None
   \<and> handleWalletAdjustment quiet_env unknown_user_example = (unknown_user_example, [])"
proof -
  have h1: "wa_userId (walletAdjustment unknown_user_example) \<noteq> []"
    by (simp add: unknown_user_example_def)
  have h2: "wa_amount (walletAdjustment unknown_user_example) \<noteq> []"
    by (simp add: unknown_user_example_def)
  have h3: "find (\<lambda>u. p_id u = wa_userId (walletAdjustment unknown_user_example))
              (users unknown_user_example) = None"
    by (simp add: unknown_user_example_def alice_def)
  from wallet_unknown_user_silent [OF h1 h2 h3, of quiet_env]
  show ?thesis using h1 h2 h3 by simp
qed

section \<open>Refresh: what is reported\<close>

text \<open>
  Claim C4 asks that an error returned by the packages read or by the withdrawals read be
  logged and reported as the generic failure notification.  The code takes
  \<^verbatim>\<open>packagesError\<close> and \<^verbatim>\<open>withdrawalsError\<close> out of the two answers and never reads
  them, where it tests \<^verbatim>\<open>usersError\<close> and every other handler tests its \<^verbatim>\<open>error\<close>.
  With the packages read answering \<^verbatim>\<open>{ data: null, error }\<close> and the two other reads
  succeeding, the refresh sets the packages to the empty list, logs no error and shows
  no notification.
\<close>

theorem fetchData_packages_error_unreported:
  "select_packages packages_error_env = Resolved None (Some ''permission denied'')
   \<and> packages (fst (fetchData packages_error_env initial_state)) = []
   \<and> console_errors (snd (fetchData packages_error_env initial_state)) = []
   \<and> toasts (snd (fetchData packages_error_env initial_state)) = []"
  by (simp add: packages_error_env_def quiet_env_def fetchData_def Let_def or_empty_def)

text \<open>
  What the refresh does report.  When the profiles read answers with an error object
  and the other two reads resolve, the three collections are set to what was returned,
  the empty list standing for \<^verbatim>\<open>null\<close>, and the users warning is logged and shown.
  When one of the three reads rejects, the error is logged and the generic failure
  notification is shown, and the collections stay as they were.
\<close>

lemma fetchData_error_reporting:
  "(select_profiles ev = Resolved ud (Some e) \<and> select_packages ev = Resolved pd pe
      \<and> select_withdrawals ev = Resolved wd we \<longrightarrow>
      users (fst (fetchData ev st)) = or_empty ud
      \<and> packages (fst (fetchData ev st)) = or_empty (map_option (map with_daily_income) pd)
      \<and> withdrawals (fst (fetchData ev st)) = or_empty wd
      \<and> console_errors (snd (fetchData ev st)) = [''Users fetch error:'']
      \<and> toasts (snd (fetchData ev st)) = [users_warning_toast])
   \<and> (\<not> (resolved (select_profiles ev) \<and> resolved (select_packages ev)
           \<and> resolved (select_withdrawals ev)) \<longrightarrow>
      console_errors (snd (fetchData ev st)) = [''Error fetching data:'']
      \<and> toasts (snd (fetchData ev st)) = [fetch_failed_toast]
      \<and> users (fst (fetchData ev st)) = users st
      \<and> packages (fst (fetchData ev st)) = packages st
      \<and> withdrawals (fst (fetchData ev st)) = withdrawals st)"
proof (intro conjI impI)
  assume "select_profiles ev = Resolved ud (Some e) \<and> select_packages ev = Resolved pd pe
      \<and> select_withdrawals ev = Resolved wd we"
  then have run: "fetchData ev st =
      (st\<lparr>users := or_empty ud,
          packages := or_empty (map_option (map with_daily_income) pd),
          withdrawals := or_empty wd, loading := False\<rparr>,
       [Console_log ''Fetching admin data...'', Remote sel_profiles,
        Console_log ''Users data:'', Console_log ''Users error:'', Remote sel_packages,
        Remote sel_withdrawals] @ users_warning)"
    by (simp add: fetchData_def Let_def)
  show "users (fst (fetchData ev st)) = or_empty ud"
    "packages (fst (fetchData ev st)) = or_empty (map_option (map with_daily_income) pd)"
    "withdrawals (fst (fetchData ev st)) = or_empty wd"
    "console_errors (snd (fetchData ev st)) = [''Users fetch error:'']"
    "toasts (snd (fetchData ev st)) = [users_warning_toast]"
    by (simp_all add: run users_warning_def)
next
  assume rej: "\<not> (resolved (select_profiles ev) \<and> resolved (select_packages ev)
           \<and> resolved (select_withdrawals ev))"
  then obtain tr where run: "fetchData ev st =
      (st\<lparr>loading := False\<rparr>,
       tr @ [Console_error ''Error fetching data:'', Toast fetch_failed_toast])"
    and tr: "console_errors tr = []" "toasts tr = []"
    by (cases "select_profiles ev"; cases "select_packages ev"; cases "select_withdrawals ev")
      (simp_all add: fetchData_def fetch_caught_def Let_def)
  show "console_errors (snd (fetchData ev st)) = [''Error fetching data:'']"
    "toasts (snd (fetchData ev st)) = [fetch_failed_toast]"
    "users (fst (fetchData ev st)) = users st"
    "packages (fst (fetchData ev st)) = packages st"
    "withdrawals (fst (fetchData ev st)) = withdrawals st"
    by (simp_all add: run tr console_errors_append toasts_append)
qed

lemma fetchData_error_reporting_example:
  "select_profiles users_error_env = Resolved None (Some ''permission denied'')
   \<and> users (fst (fetchData users_error_env debit_example)) = []
   \<and> toasts (snd (fetchData users_error_env debit_example)) = [users_warning_toast]
   \<and> \<not> resolved (select_withdrawals withdrawals_rejected_env)
   \<and> toasts (snd (fetchData withdrawals_rejected_env debit_example)) = [fetch_failed_toast]
   \<and> users (fst (fetchData withdrawals_rejected_env debit_example)) = users debit_example"
proof -
  have a: "select_profiles users_error_env = Resolved None (Some ''permission denied'')"
    "select_packages users_error_env = Resolved (Some []) None"
    "select_withdrawals users_error_env = Resolved (Some []) None"
    by (simp_all add: users_error_env_def quiet_env_def)
  have b: "\<not> resolved (select_withdrawals withdrawals_rejected_env)"
    by (simp add: withdrawals_rejected_env_def)
  from fetchData_error_reporting [of users_error_env None "''permission denied''"
      "Some []" None "Some []" None debit_example]
    fetchData_error_reporting [of withdrawals_rejected_env None "''permission denied''"
      "Some []" None "Some []" None debit_example]
  show ?thesis using a b by (simp add: or_empty_def)
qed

section \<open>User deletion\<close>

lemmas deletion_requests = del_investments_def del_withdrawals_def del_profile_def

lemma fetchData_toasts_not_deletion:
  "deletion_failed_toast \<notin> set (toasts (snd (fetchData ev st)))"
  by (simp add: fetchData_def fetch_caught_def users_warning_def deletion_failed_toast_def
      fetch_failed_toast_def users_warning_toast_def Let_def
      split: response.split option.split)

lemma auth_removal_writes: "remote_writes (auth_removal ev userId) = [Auth_deleteUser userId]"
  by (simp add: auth_removal_def split: response.split)

lemma auth_removal_toasts: "toasts (auth_removal ev userId) = []"
  by (simp add: auth_removal_def split: response.split)

lemma auth_removal_console_errors: "console_errors (auth_removal ev userId) = []"
  by (simp add: auth_removal_def split: response.split)

text \<open>The writes of a confirmed deletion, by how far the cascade gets.\<close>

lemma deletion_writes:
  assumes "confirm ev (confirm_user_text userName)"
  shows "remote_writes (snd (handleUserDeletion ev st userId userName)) =
     (if resolved (respond ev (del_investments userId)) then
        if resolved (respond ev (del_withdrawals userId)) then
          if succeeded (respond ev (del_profile userId)) then
            [del_investments userId, del_withdrawals userId, del_profile userId, Auth_deleteUser userId]
          else [del_investments userId, del_withdrawals userId, del_profile userId]
        else [del_investments userId, del_withdrawals userId]
      else [del_investments userId])"
  using assms
  by (cases "respond ev (del_investments userId)"; cases "respond ev (del_withdrawals userId)")
    (simp_all add: handleUserDeletion_def deletion_caught_def deletion_requests
      case_prod_beta remote_writes_append fetchData_no_writes auth_removal_writes)

text \<open>
  Claim C5.  In a confirmed deletion of user \<^verbatim>\<open>userId\<close> the writes are an initial part of
  the sequence: delete the investments of \<^verbatim>\<open>userId\<close>, delete the withdrawal requests of
  \<^verbatim>\<open>userId\<close>, delete the profile \<^verbatim>\<open>userId\<close>, remove the authentication identity.  The profile
  delete is issued only once both dependent deletes have resolved, and the identity
  removal only once the profile delete has succeeded.  When the three deletes go
  through, then whatever the identity removal answers, a rejection included, the writes
  are exactly these four, each once; the outer failure path is not taken, the success
  notification is shown and the refresh runs; a rejection is only warned about on the
  console.
\<close>

theorem user_deletion_order:
  assumes conf: "confirm ev (confirm_user_text userName)"
  shows "prefix (remote_writes (snd (handleUserDeletion ev st userId userName)))
           [del_investments userId, del_withdrawals userId, del_profile userId, Auth_deleteUser userId]
       \<and> (del_profile userId \<in> set (remote_writes (snd (handleUserDeletion ev st userId userName)))
            \<longrightarrow> resolved (respond ev (del_investments userId))
              \<and> resolved (respond ev (del_withdrawals userId)))
       \<and> (Auth_deleteUser userId \<in> set (remote_writes (snd (handleUserDeletion ev st userId userName)))
            \<longrightarrow> succeeded (respond ev (del_profile userId)))
       \<and> (resolved (respond ev (del_investments userId))
            \<and> resolved (respond ev (del_withdrawals userId))
            \<and> succeeded (respond ev (del_profile userId)) \<longrightarrow>
            remote_writes (snd (handleUserDeletion ev st userId userName))
              = [del_investments userId, del_withdrawals userId, del_profile userId,
                 Auth_deleteUser userId]
            \<and> toasts (snd (handleUserDeletion ev st userId userName))
              = user_deleted_toast userName # toasts (snd (fetchData ev st))
            \<and> console_errors (snd (handleUserDeletion ev st userId userName))
              = console_errors (snd (fetchData ev st))
            \<and> fst (handleUserDeletion ev st userId userName) = fst (fetchData ev st)
            \<and> (\<not> resolved (respond ev (Auth_deleteUser userId)) \<longrightarrow>
                 Console_warn ''Could not delete auth user:''
                   \<in> set (snd (handleUserDeletion ev st userId userName))))"
proof -
  let ?ws = "remote_writes (snd (handleUserDeletion ev st userId userName))"
  note w = deletion_writes [OF conf, of st userId]
  have p: "prefix ?ws
      [del_investments userId, del_withdrawals userId, del_profile userId, Auth_deleteUser userId]"
    unfolding w by simp
  have d: "del_profile userId \<in> set ?ws \<longrightarrow>
      resolved (respond ev (del_investments userId)) \<and> resolved (respond ev (del_withdrawals userId))"
    unfolding w by (simp add: deletion_requests)
  have a: "Auth_deleteUser userId \<in> set ?ws \<longrightarrow> succeeded (respond ev (del_profile userId))"
    unfolding w by (simp add: deletion_requests)
  have warned: "\<not> resolved (respond ev (Auth_deleteUser userId)) \<Longrightarrow>
      Console_warn ''Could not delete auth user:'' \<in> set (auth_removal ev userId)"
    by (cases "respond ev (Auth_deleteUser userId)") (simp_all add: auth_removal_def)
  have s: "resolved (respond ev (del_investments userId))
            \<and> resolved (respond ev (del_withdrawals userId))
            \<and> succeeded (respond ev (del_profile userId)) \<longrightarrow>
            ?ws = [del_investments userId, del_withdrawals userId, del_profile userId,
                 Auth_deleteUser userId]
            \<and> toasts (snd (handleUserDeletion ev st userId userName))
              = user_deleted_toast userName # toasts (snd (fetchData ev st))
            \<and> console_errors (snd (handleUserDeletion ev st userId userName))
              = console_errors (snd (fetchData ev st))
            \<and> fst (handleUserDeletion ev st userId userName) = fst (fetchData ev st)
            \<and> (\<not> resolved (respond ev (Auth_deleteUser userId)) \<longrightarrow>
                 Console_warn ''Could not delete auth user:''
                   \<in> set (snd (handleUserDeletion ev st userId userName)))"
    using conf warned
    by (cases "respond ev (del_investments userId)"; cases "respond ev (del_withdrawals userId)")
      (simp_all add: handleUserDeletion_def case_prod_beta remote_writes_append
        fetchData_no_writes auth_removal_writes toasts_append auth_removal_toasts
        console_errors_append auth_removal_console_errors deletion_requests)
  from p d a s show ?thesis by blast
qed

theorem user_deletion_order_witness:
  "confirm auth_failure_env (confirm_user_text ''Alice K'')
   \<and> respond auth_failure_env (Auth_deleteUser ''u1'') = Rejected ''not allowed''
   \<and> remote_writes (snd (handleUserDeletion auth_failure_env debit_example ''u1'' ''Alice K''))
       = [del_investments ''u1'', del_withdrawals ''u1'', del_profile ''u1'',
          Auth_deleteUser ''u1'']
   \<and> toasts (snd (handleUserDeletion auth_failure_env debit_example ''u1'' ''Alice K''))
       = [user_deleted_toast ''Alice K'']
   \<and> Console_warn ''Could not delete auth user:''
       \<in> set (snd (handleUserDeletion auth_failure_env debit_example ''u1'' ''Alice K''))"
proof -
  have c: "confirm auth_failure_env (confirm_user_text ''Alice K'')"
    by (simp add: auth_failure_env_def quiet_env_def)
  have r: "respond auth_failure_env (Auth_deleteUser ''u1'') = Rejected ''not allowed''"
    "respond auth_failure_env (del_investments ''u1'') = Resolved None None"
    "respond auth_failure_env (del_withdrawals ''u1'') = Resolved None None"
    "respond auth_failure_env (del_profile ''u1'') = Resolved None None"
    by (simp_all add: auth_failure_env_def deletion_requests)
  have t: "toasts (snd (fetchData auth_failure_env s)) = []" for s
    by (simp add: fetchData_def auth_failure_env_def quiet_env_def Let_def)
  from user_deletion_order [OF c, of debit_example "''u1''"]
  show ?thesis using c r t by simp
qed

text \<open>
  Claim C9.  In a confirmed deletion, whatever the two dependent deletes return, error
  objects included, the profile delete is issued; and, the dependent deletes having
  returned, the failure path (the logged error and the notification ``Failed to delete
  user.'') is taken exactly when the profile delete itself does not succeed.
\<close>

theorem user_deletion_ignores_dependent_errors:
  assumes conf: "confirm ev (confirm_user_text userName)"
      and inv: "respond ev (del_investments userId) = Resolved d1 e1"
      and wd: "respond ev (del_withdrawals userId) = Resolved d2 e2"
  shows "del_profile userId \<in> set (remote_writes (snd (handleUserDeletion ev st userId userName)))
       \<and> (deletion_failed_toast \<in> set (toasts (snd (handleUserDeletion ev st userId userName)))
            \<longleftrightarrow> \<not> succeeded (respond ev (del_profile userId)))
       \<and> (console_errors (snd (handleUserDeletion ev st userId userName))
            = (if succeeded (respond ev (del_profile userId))
               then console_errors (snd (fetchData ev st))
               else [''Error deleting user:'']))"
  using conf inv wd
  by (simp add: handleUserDeletion_def case_prod_beta remote_writes_append toasts_append
      console_errors_append fetchData_no_writes auth_removal_writes auth_removal_toasts
      fetchData_toasts_not_deletion [unfolded deletion_failed_toast_def]
      deletion_caught_def deletion_failed_toast_def
      user_deleted_toast_def deletion_requests auth_removal_console_errors)

theorem user_deletion_ignores_dependent_errors_witness:
  "confirm dependents_error_env (confirm_user_text ''Alice K'')
   \<and> respond dependents_error_env (del_investments ''u1'') = Resolved None (Some ''denied'')
   \<and> respond dependents_error_env (del_withdrawals ''u1'') = Resolved None (Some ''denied'')
   \<and> del_profile ''u1''
       \<in> set (remote_writes
                (snd (handleUserDeletion dependents_error_env debit_example ''u1'' ''Alice K'')))
   \<and> deletion_failed_toast
       \<notin> set (toasts
                (snd (handleUserDeletion dependents_error_env debit_example ''u1'' ''Alice K'')))"
proof -
  have c: "confirm dependents_error_env (confirm_user_text ''Alice K'')"
    by (simp add: dependents_error_env_def quiet_env_def)
  have r: "respond dependents_error_env (del_investments ''u1'') = Resolved None (Some ''denied'')"
    "respond dependents_error_env (del_withdrawals ''u1'') = Resolved None (Some ''denied'')"
    by (simp_all add: dependents_error_env_def deletion_requests)
  have p: "succeeded (respond dependents_error_env (del_profile ''u1''))"
    by (simp add: dependents_error_env_def)
  from user_deletion_ignores_dependent_errors [OF c r, of debit_example]
  show ?thesis using c r p by simp
qed

section \<open>Withdrawal decisions\<close>

text \<open>
  Claim C6.  For every withdrawal id and both decisions the handler issues exactly one
  write: an update of that row setting the status to \<^verbatim>\<open>approved\<close> for approve and
  \<^verbatim>\<open>rejected\<close> for reject, together with the current time as \<^verbatim>\<open>processed_at\<close>.  When the
  update succeeds the refresh runs.  The handler never reads the local withdrawals:
  what it sends is the same whatever they hold, and so whatever the status of the row.
\<close>

theorem withdrawal_decision_update:
  "remote_writes (snd (handleWithdrawalAction ev st withdrawalId a))
     = [Update tbl_withdrawal_requests
          (set_status (case a of approve \<Rightarrow> ''approved'' | reject \<Rightarrow> ''rejected'')
             (now_iso ev))
          ''id'' withdrawalId]
   \<and> (succeeded (respond ev (update_status ev withdrawalId a)) \<longrightarrow>
        fst (handleWithdrawalAction ev st withdrawalId a) = fst (fetchData ev st)
        \<and> snd (handleWithdrawalAction ev st withdrawalId a)
            = [Remote (update_status ev withdrawalId a), Toast (withdrawal_toast a)]
                @ snd (fetchData ev st))
   \<and> snd (handleWithdrawalAction ev (st\<lparr>withdrawals := ws\<rparr>) withdrawalId a)
       = snd (handleWithdrawalAction ev st withdrawalId a)"
proof -
  have tr: "snd (fetchData ev (st\<lparr>withdrawals := ws\<rparr>)) = snd (fetchData ev st)"
    by (rule fetchData_trace_env_only)
  show ?thesis
    by (cases a)
      (simp_all add: handleWithdrawalAction_def update_status_def Let_def case_prod_beta
        remote_writes_append fetchData_no_writes withdrawal_caught_def tr)
qed

text \<open>Rejecting a withdrawal that is already approved sends the update all the same.\<close>

theorem withdrawal_decision_update_witness:
  "map status (withdrawals processed_example) = [''approved'']
   \<and> succeeded (respond quiet_env (update_status quiet_env ''w1'' reject))
   \<and> remote_writes (snd (handleWithdrawalAction quiet_env processed_example ''w1'' reject))
       = [Update tbl_withdrawal_requests
            (set_status ''rejected'' ''2024-05-01T10:00:00.000Z'') ''id'' ''w1'']
   \<and> fst (handleWithdrawalAction quiet_env processed_example ''w1'' reject)
       = fst (fetchData quiet_env processed_example)"
proof -
  have s: "map status (withdrawals processed_example) = [''approved'']"
    by (simp add: processed_example_def approved_withdrawal_def)
  have ok: "succeeded (respond quiet_env (update_status quiet_env ''w1'' reject))"
    by (simp add: respond_quiet_env)
  have n: "now_iso quiet_env = ''2024-05-01T10:00:00.000Z''"
    by (simp add: quiet_env_def)
  from withdrawal_decision_update [of quiet_env processed_example "''w1''" reject]
  show ?thesis using s ok n by (simp add: update_status_def fetchData_no_writes)
qed

section \<open>Package creation\<close>

text \<open>
  Claim C2, as stated, fails: with the letters \<^verbatim>\<open>abc\<close> as the amount, which parse to
  \<^verbatim>\<open>NaN\<close>, the handler issues the insert and reports the creation.
\<close>

theorem package_create_nonnumeric_counterexample:
  "f_amount (packageForm nonnumeric_example) = ''abc''
   \<and> parseFloat ''abc'' = NaN
   \<and> remote_writes (snd (handlePackageCreate quiet_env nonnumeric_example))
       = [Insert \<lparr>ins_name = ''Premium'', ins_amount = NaN, ins_return_amount = Fin 65000,
                  ins_duration_days = Fin 30, ins_max_purchases = Fin 3,
                  ins_package_type = daily\<rparr>]
   \<and> toasts (snd (handlePackageCreate quiet_env nonnumeric_example))
       = [package_created_toast daily]"
proof -
  have p: "parseFloat ''abc'' = NaN" "parseFloat ''65000'' = Fin 65000"
    "parseInt ''30'' = Fin 30"
    by (simp_all add: parse_defs)
  have t: "toasts (snd (fetchData quiet_env s)) = []" for s
    by (simp add: fetchData_def quiet_env_def Let_def)
  show ?thesis
    by (simp add: nonnumeric_example_def handlePackageCreate_def Let_def p t
        fetchData_no_writes respond_quiet_env initial_state_def insert_of_form_def
        case_prod_beta remote_writes_append toasts_append)
qed

text \<open>
  Claim C2, amended.  When the name, the amount, the return amount or the duration is
  the empty string, the handler shows ``Invalid Input'' and does nothing else; an insert
  is issued only when the four are non-empty, and then it is issued, whether or not the
  three number fields parse.
\<close>

theorem package_create_rejects_empty_fields:
  "(f_name (packageForm st) = [] \<or> f_amount (packageForm st) = []
      \<or> f_return_amount (packageForm st) = [] \<or> f_duration_days (packageForm st) = [] \<longrightarrow>
      handlePackageCreate ev st = (st, [Toast package_invalid_toast])
      \<and> title package_invalid_toast = ''Invalid Input'')
   \<and> (remote_writes (snd (handlePackageCreate ev st)) \<noteq> [] \<longrightarrow>
        f_name (packageForm st) \<noteq> [] \<and> f_amount (packageForm st) \<noteq> []
        \<and> f_return_amount (packageForm st) \<noteq> [] \<and> f_duration_days (packageForm st) \<noteq> [])
   \<and> (f_name (packageForm st) \<noteq> [] \<and> f_amount (packageForm st) \<noteq> []
        \<and> f_return_amount (packageForm st) \<noteq> [] \<and> f_duration_days (packageForm st) \<noteq> [] \<longrightarrow>
        remote_writes (snd (handlePackageCreate ev st))
          = [Insert (insert_of_form (packageForm st))])"
  by (auto simp: handlePackageCreate_def Let_def package_invalid_toast_def case_prod_beta
      remote_writes_append fetchData_no_writes package_caught_def)

theorem package_create_rejects_empty_fields_witness:
  "f_duration_days (packageForm no_duration_example) = []
   \<and> handlePackageCreate quiet_env no_duration_example
       = (no_duration_example, [Toast package_invalid_toast])
   \<and> f_name (packageForm premium_example) \<noteq> []
   \<and> f_amount (packageForm premium_example) \<noteq> []
   \<and> f_return_amount (packageForm premium_example) \<noteq> []
   \<and> f_duration_days (packageForm premium_example) \<noteq> []
   \<and> remote_writes (snd (handlePackageCreate quiet_env premium_example))
       = [Insert (insert_of_form (packageForm premium_example))]"
proof -
  have h: "f_duration_days (packageForm no_duration_example) = []"
    by (simp add: no_duration_example_def)
  have f: "f_name (packageForm premium_example) \<noteq> []"
    "f_amount (packageForm premium_example) \<noteq> []"
    "f_return_amount (packageForm premium_example) \<noteq> []"
    "f_duration_days (packageForm premium_example) \<noteq> []"
    by (simp_all add: premium_example_def)
  from package_create_rejects_empty_fields [of no_duration_example quiet_env]
    package_create_rejects_empty_fields [of premium_example quiet_env]
  show ?thesis using h f by simp
qed

text \<open>
  Claim C7.  When the four text fields are non-empty and the insert succeeds, the one
  record inserted has the name of the form, \<^verbatim>\<open>parseFloat\<close> of the amount and of the return
  amount, \<^verbatim>\<open>parseInt\<close> of the duration, \<^verbatim>\<open>max_purchases\<close> 3 and the package type of the
  form; afterwards the form is the empty initial form and the refresh has run on the
  state with the form reset.
\<close>

theorem package_create_success:
  assumes filled: "f_name (packageForm st) \<noteq> []" "f_amount (packageForm st) \<noteq> []"
      "f_return_amount (packageForm st) \<noteq> []" "f_duration_days (packageForm st) \<noteq> []"
    and rec: "r = \<lparr>ins_name = f_name (packageForm st),
                   ins_amount = parseFloat (f_amount (packageForm st)),
                   ins_return_amount = parseFloat (f_return_amount (packageForm st)),
                   ins_duration_days = parseInt (f_duration_days (packageForm st)),
                   ins_max_purchases = Fin 3,
                   ins_package_type = f_package_type (packageForm st)\<rparr>"
    and ok: "succeeded (respond ev (Insert r))"
  shows "remote_writes (snd (handlePackageCreate ev st)) = [Insert r]
       \<and> packageForm (fst (handlePackageCreate ev st)) = empty_package_form
       \<and> fst (handlePackageCreate ev st)
           = fst (fetchData ev (st\<lparr>packageForm := empty_package_form\<rparr>))
       \<and> snd (handlePackageCreate ev st)
           = [Remote (Insert r), Toast (package_created_toast (f_package_type (packageForm st)))]
               @ snd (fetchData ev (st\<lparr>packageForm := empty_package_form\<rparr>))"
proof -
  have r: "insert_of_form (packageForm st) = r"
    using rec by (simp add: insert_of_form_def)
  have run: "handlePackageCreate ev st
      = (fst (fetchData ev (st\<lparr>packageForm := empty_package_form\<rparr>)),
         [Remote (Insert r), Toast (package_created_toast (f_package_type (packageForm st)))]
           @ snd (fetchData ev (st\<lparr>packageForm := empty_package_form\<rparr>)))"
    using filled ok by (simp add: handlePackageCreate_def Let_def r case_prod_beta)
  show ?thesis
    by (simp add: run remote_writes_append fetchData_no_writes fetchData_keeps_forms)
qed

text \<open>The scenario of the specification: the package ``Premium''.\<close>

theorem package_create_success_witness:
  "succeeded (respond quiet_env (Insert \<lparr>ins_name = ''Premium'', ins_amount = Fin 50000,
       ins_return_amount = Fin 65000, ins_duration_days = Fin 30, ins_max_purchases = Fin 3,
       ins_package_type = daily\<rparr>))
   \<and> remote_writes (snd (handlePackageCreate quiet_env premium_example))
       = [Insert \<lparr>ins_name = ''Premium'', ins_amount = Fin 50000,
            ins_return_amount = Fin 65000, ins_duration_days = Fin 30,
            ins_max_purchases = Fin 3, ins_package_type = daily\<rparr>]
   \<and> packageForm (fst (handlePackageCreate quiet_env premium_example)) = empty_package_form"
proof -
  let ?r = "\<lparr>ins_name = ''Premium'', ins_amount = Fin 50000,
       ins_return_amount = Fin 65000, ins_duration_days = Fin 30, ins_max_purchases = Fin 3,
       ins_package_type = daily\<rparr>"
  have p: "parseFloat ''50000'' = Fin 50000" "parseFloat ''65000'' = Fin 65000"
    "parseInt ''30'' = Fin 30"
    by (simp_all add: parse_defs)
  have f: "f_name (packageForm premium_example) \<noteq> []"
    "f_amount (packageForm premium_example) \<noteq> []"
    "f_return_amount (packageForm premium_example) \<noteq> []"
    "f_duration_days (packageForm premium_example) \<noteq> []"
    by (simp_all add: premium_example_def)
  have rec: "?r = \<lparr>ins_name = f_name (packageForm premium_example),
                   ins_amount = parseFloat (f_amount (packageForm premium_example)),
                   ins_return_amount = parseFloat (f_return_amount (packageForm premium_example)),
                   ins_duration_days = parseInt (f_duration_days (packageForm premium_example)),
                   ins_max_purchases = Fin 3,
                   ins_package_type = f_package_type (packageForm premium_example)\<rparr>"
    by (simp add: premium_example_def p)
  have ok: "succeeded (respond quiet_env (Insert ?r))"
    by (simp add: respond_quiet_env)
  from package_create_success [OF f rec ok]
  show ?thesis using ok by blast
qed

end
